theory Spec2Isabelle
  imports Complex_Main
begin

section \<open>Values and errors\<close>

text \<open>
  The monitored signal and the bounds are Python floats. Only their order is used by the
  threshold and patience criteria, so a float is modelled as a real number, one of the two
  infinities, or NaN, with the IEEE comparisons Python applies: every comparison with NaN
  is false. Rounding is not modelled: the finite values are exact reals.
\<close>

datatype pyfloat = NegInf | Fin real | PosInf | NaN

text \<open>\<^verbatim>\<open>a < b\<close> on floats.\<close>

fun lt :: "pyfloat \<Rightarrow> pyfloat \<Rightarrow> bool" where
  "lt NaN _ = False"
| "lt _ NaN = False"
| "lt _ NegInf = False"
| "lt NegInf _ = True"
| "lt PosInf _ = False"
| "lt (Fin a) (Fin b) = (a < b)"
| "lt (Fin a) PosInf = True"

text \<open>\<^verbatim>\<open>a > b\<close> on floats.\<close>

definition gt :: "pyfloat \<Rightarrow> pyfloat \<Rightarrow> bool" where
  "gt a b = lt b a"

fun is_finite :: "pyfloat \<Rightarrow> bool" where
  "is_finite (Fin _) = True"
| "is_finite _ = False"

fun the_real :: "pyfloat \<Rightarrow> real" where
  "the_real (Fin r) = r"
| "the_real _ = 0"

text \<open>The exceptions the calls can raise.\<close>

datatype error = NotImplementedError | AttributeError | IndexError | ValueError | LinAlgError

section \<open>Threshold criterion\<close>

text \<open>
  \<^verbatim>\<open>self.min\<close> and \<^verbatim>\<open>self.max\<close>, named after the constructor's parameters
  because \<open>min\<close> and \<open>max\<close> are constants of HOL.
\<close>

record ThresholdEarlyStopping =
  min_threshold :: pyfloat
  max_threshold :: pyfloat

definition ThresholdEarlyStopping_init :: "pyfloat \<Rightarrow> pyfloat \<Rightarrow> ThresholdEarlyStopping" where
  "ThresholdEarlyStopping_init lo hi = \<lparr>min_threshold = lo, max_threshold = hi\<rparr>"

text \<open>The constructor with both parameters omitted: \<^verbatim>\<open>-float('inf')\<close>, \<^verbatim>\<open>float('inf')\<close>.\<close>

definition ThresholdEarlyStopping_default :: ThresholdEarlyStopping where
  "ThresholdEarlyStopping_default = ThresholdEarlyStopping_init NegInf PosInf"

text \<open>
  A method takes the object and returns its result with the object after the call. The body
  of this one assigns nothing.
\<close>

definition threshold_should_stop ::
  "ThresholdEarlyStopping \<Rightarrow> pyfloat \<Rightarrow> bool \<times> ThresholdEarlyStopping" where
  "threshold_should_stop self new_value =
     (gt new_value (max_threshold self) \<or> lt new_value (min_threshold self), self)"

section \<open>Patience criterion\<close>

record PatienceEarlyStopping =
  patience :: int
  best_so_far :: pyfloat
  time_since_best :: int

definition PatienceEarlyStopping_init :: "int \<Rightarrow> PatienceEarlyStopping" where
  "PatienceEarlyStopping_init p = \<lparr>patience = p, best_so_far = NegInf, time_since_best = 0\<rparr>"

definition patience_should_stop ::
  "PatienceEarlyStopping \<Rightarrow> pyfloat \<Rightarrow> bool \<times> PatienceEarlyStopping" where
  "patience_should_stop self new_value =
     (if gt new_value (best_so_far self)
      then (False, self\<lparr>best_so_far := new_value, time_since_best := 0\<rparr>)
      else (let self' = self\<lparr>time_since_best := time_since_best self + 1\<rparr>
            in (patience self < time_since_best self', self')))"

definition patience_reset :: "PatienceEarlyStopping \<Rightarrow> PatienceEarlyStopping" where
  "patience_reset self = self\<lparr>best_so_far := NegInf, time_since_best := 0\<rparr>"

text \<open>Consecutive calls of \<^verbatim>\<open>should_stop\<close> on one object, with the results in order.\<close>

fun patience_run ::
  "PatienceEarlyStopping \<Rightarrow> pyfloat list \<Rightarrow> bool list \<times> PatienceEarlyStopping" where
  "patience_run self [] = ([], self)"
| "patience_run self (v # vs) =
     (case patience_should_stop self v of
        (b, self') \<Rightarrow> (case patience_run self' vs of (bs, self'') \<Rightarrow> (b # bs, self'')))"

section \<open>Sliding-window slope criterion\<close>

text \<open>
  \<^verbatim>\<open>self.min\<close>, \<^verbatim>\<open>self.max\<close>, \<^verbatim>\<open>self.x\<close>, \<^verbatim>\<open>self.y\<close> and \<^verbatim>\<open>self.A\<close> are
  the fields \<open>min_thresh\<close>, \<open>max_thresh\<close>, \<open>self_x\<close>, \<open>self_y\<close> and \<open>self_A\<close>. The rows
  of the design matrix are pairs: it has two columns.
\<close>

record SlopeThresholdEarlyStopping =
  min_thresh :: pyfloat
  max_thresh :: pyfloat
  points_seen :: int
  time :: int
  self_x :: "real list"
  self_y :: "pyfloat list"
  self_A :: "(real \<times> real) list"

text \<open>
  \<^verbatim>\<open>np.zeros(time)\<close> raises ValueError on a negative size; \<^verbatim>\<open>range(time)\<close> is empty
  there. The matrix is \<^verbatim>\<open>np.vstack([x, ones]).T\<close>: one row \<open>(x\<^sub>i, 1)\<close> for each index.
\<close>

definition SlopeThresholdEarlyStopping_init ::
  "pyfloat \<Rightarrow> pyfloat \<Rightarrow> int \<Rightarrow> error + SlopeThresholdEarlyStopping" where
  "SlopeThresholdEarlyStopping_init lo hi t =
     (if t < 0 then Inl ValueError
      else (let xs = map real [0..<nat t]
            in Inr \<lparr>min_thresh = lo, max_thresh = hi, points_seen = 0, time = t,
                    self_x = xs, self_y = replicate (nat t) (Fin 0),
                    self_A = map (\<lambda>xi. (xi, 1)) xs\<rparr>))"

subsection \<open>The library's least-squares solver\<close>

text \<open>
  \<^verbatim>\<open>np.linalg.lstsq(A, b)[0]\<close> is a routine of NumPy, not of this module, and it
  computes in floating point. Nothing is fixed about its result here: the solver is a
  parameter of the model, a function of the matrix and the vector that returns the pair
  (slope, intercept) or raises. The entries of the matrix, small integers and ones, are
  exact.
\<close>

type_synonym lstsq_solver = "(real \<times> real) list \<Rightarrow> pyfloat list \<Rightarrow> error + pyfloat \<times> pyfloat"

subsection \<open>The methods\<close>

text \<open>
  \<^verbatim>\<open>self.y[:-1] = self.y[1:]\<close> copies all but the first entry one slot down and keeps the
  last slot; \<^verbatim>\<open>self.y[-1] = new_value\<close> raises IndexError on an empty array, which the
  slice assignment before it has left as it was. A call that raises returns the exception
  with the object as the call left it.
\<close>

definition slope_should_stop ::
  "lstsq_solver \<Rightarrow> SlopeThresholdEarlyStopping \<Rightarrow> pyfloat
     \<Rightarrow> error \<times> SlopeThresholdEarlyStopping + bool \<times> SlopeThresholdEarlyStopping" where
  "slope_should_stop lstsq self new_value =
     (let shifted = drop 1 (self_y self) @ drop (length (self_y self) - 1) (self_y self)
      in if shifted = [] then Inl (IndexError, self)
         else (let self1 = self\<lparr>self_y := shifted[length shifted - 1 := new_value]\<rparr>
               in if points_seen self1 < time self1 - 1
                  then Inr (False, self1\<lparr>points_seen := points_seen self1 + 1\<rparr>)
                  else (case lstsq (self_A self1) (self_y self1) of
                          Inl e \<Rightarrow> Inl (e, self1)
                        | Inr (m, c) \<Rightarrow>
                            Inr (lt m (min_thresh self1) \<or> gt m (max_thresh self1), self1))))"

definition slope_reset :: "SlopeThresholdEarlyStopping \<Rightarrow> SlopeThresholdEarlyStopping" where
  "slope_reset self = self\<lparr>points_seen := 0, self_y := replicate (length (self_y self)) (Fin 0)\<rparr>"

text \<open>
  Consecutive calls of \<^verbatim>\<open>should_stop\<close> on one object: the results of the calls that
  returned, the exception that ended the run, if one did, and the object at the end.
\<close>

fun slope_run ::
  "lstsq_solver \<Rightarrow> SlopeThresholdEarlyStopping \<Rightarrow> pyfloat list
     \<Rightarrow> bool list \<times> error option \<times> SlopeThresholdEarlyStopping" where
  "slope_run solver self [] = ([], None, self)"
| "slope_run solver self (v # vs) =
     (case slope_should_stop solver self v of
        Inl (e, self') \<Rightarrow> ([], Some e, self')
      | Inr (b, self') \<Rightarrow>
          (case slope_run solver self' vs of (bs, r, self'') \<Rightarrow> (b # bs, r, self'')))"

text \<open>
  \<open>supplied solver lo hi t vs self\<close>: \<open>self\<close> is a state that an object constructed with
  bounds \<open>lo\<close>, \<open>hi\<close> and window \<open>t\<close> can be in, and \<open>vs\<close> are the values supplied to it
  since its construction or its last reset, oldest first, by calls that returned or raised.
\<close>

inductive supplied ::
  "lstsq_solver \<Rightarrow> pyfloat \<Rightarrow> pyfloat \<Rightarrow> int \<Rightarrow> pyfloat list \<Rightarrow> SlopeThresholdEarlyStopping \<Rightarrow> bool"
  for solver lo hi t where
  constructed: "SlopeThresholdEarlyStopping_init lo hi t = Inr self \<Longrightarrow> supplied solver lo hi t [] self"
| after_reset: "supplied solver lo hi t vs self \<Longrightarrow> supplied solver lo hi t [] (slope_reset self)"
| after_call: "supplied solver lo hi t vs self \<Longrightarrow> slope_should_stop solver self v = Inr (b, self')
     \<Longrightarrow> supplied solver lo hi t (vs @ [v]) self'"
| after_raise: "supplied solver lo hi t vs self \<Longrightarrow> slope_should_stop solver self v = Inl (e, self')
     \<Longrightarrow> supplied solver lo hi t (vs @ [v]) self'"

text \<open>The same for the patience criterion: the states an object of patience \<open>p\<close> can be in.\<close>

inductive patience_reachable :: "int \<Rightarrow> PatienceEarlyStopping \<Rightarrow> bool" for p where
  p_constructed: "patience_reachable p (PatienceEarlyStopping_init p)"
| p_after_reset: "patience_reachable p self \<Longrightarrow> patience_reachable p (patience_reset self)"
| p_after_call: "patience_reachable p self \<Longrightarrow> patience_reachable p (snd (patience_should_stop self v))"

subsection \<open>Ordinary least squares, as the specification words it\<close>



text \<open>The window after a call: the last \<open>n\<close> of the values supplied, oldest first.\<close>

definition last_n :: "nat \<Rightarrow> 'a list \<Rightarrow> 'a list" where
  "last_n n vs = drop (length vs - n) vs"

text \<open>
  The exact solution of the normal equations of a system of two columns, in the reals:
  the line the specification calls the least-squares fit, where the columns are
  independent (elsewhere the fit is not unique, and the value here is immaterial). It is
  not part of the program, whose solver works in floating point. \<open>dot\<close> is the inner
  product of two columns.
\<close>

definition dot :: "real list \<Rightarrow> real list \<Rightarrow> real" where
  "dot u w = (\<Sum>(p, q)\<leftarrow>zip u w. p * q)"

definition exact_fit :: "(real \<times> real) list \<Rightarrow> real list \<Rightarrow> real \<times> real" where
  "exact_fit A b =
     (let a1 = map fst A; a2 = map snd A;
          saa = dot a1 a1; sab = dot a1 a2; sbb = dot a2 a2;
          say = dot a1 b; sby = dot a2 b;
          det = saa * sbb - sab * sab
      in if det \<noteq> 0 then ((sbb * say - sab * sby) / det, (saa * sby - sab * say) / det)
         else (0, 0))"

text \<open>
  A solver for the examples, one that a floating-point routine can be: on finite data it
  returns the exact intercept and the exact slope with a relative error of \<open>1 / 2 ^ 52\<close>,
  the spacing of the 64-bit floats at 1; on other data it returns NaN. On the points
  \<open>(0, 1), (1, 2), (2, 3)\<close> its slope is \<open>1 + 1 / 2 ^ 52\<close>, the float printed as
  \<^verbatim>\<open>1.0000000000000002\<close>.
\<close>

definition rounded_solver :: lstsq_solver where
  "rounded_solver A b =
     (if length A = length b \<and> list_all is_finite b
      then (case exact_fit A (map the_real b) of (m, c) \<Rightarrow> Inr (Fin (m * (1 + 1 / 2 ^ 52)), Fin c))
      else Inr (NaN, NaN))"

section \<open>Classes and method lookup\<close>

text \<open>
  The class statements of the module: each class with its bases, the methods its body
  defines, and its method resolution order. A call of a method that no class of the order
  defines raises AttributeError.
\<close>

datatype py_class = C_object | C_Trigger | C_StatefulTriggerMixin | C_EarlyStopping
  | C_ThresholdEarlyStopping | C_PatienceEarlyStopping | C_SlopeThresholdEarlyStopping

datatype py_method = M_init | M_should_stop | M_reset

fun bases :: "py_class \<Rightarrow> py_class list" where
  "bases C_object = []"
| "bases C_Trigger = [C_object]"
| "bases C_StatefulTriggerMixin = [C_object]"
| "bases C_EarlyStopping = [C_Trigger]"
| "bases C_ThresholdEarlyStopping = [C_EarlyStopping]"
| "bases C_PatienceEarlyStopping = [C_EarlyStopping, C_StatefulTriggerMixin]"
| "bases C_SlopeThresholdEarlyStopping = [C_EarlyStopping, C_StatefulTriggerMixin]"

fun has_method :: "py_class \<Rightarrow> py_method \<Rightarrow> bool" where
  "has_method C_object m = (m = M_init)"
| "has_method C_Trigger m = False"
| "has_method C_StatefulTriggerMixin m = (m = M_reset)"
| "has_method C_EarlyStopping m = (m = M_should_stop)"
| "has_method C_ThresholdEarlyStopping m = (m = M_init \<or> m = M_should_stop)"
| "has_method C_PatienceEarlyStopping m = True"
| "has_method C_SlopeThresholdEarlyStopping m = True"

text \<open>
  The classes a lookup visits: the class, then its bases' ancestors from left to right,
  each class once, at its last position (\<open>object\<close> after both branches).
\<close>

fun ancestors :: "nat \<Rightarrow> py_class \<Rightarrow> py_class list" where
  "ancestors 0 c = [c]"
| "ancestors (Suc n) c = c # concat (map (ancestors n) (bases c))"

definition mro :: "py_class \<Rightarrow> py_class list" where
  "mro c = remdups (ancestors 4 c)"

definition find_method :: "py_class \<Rightarrow> py_method \<Rightarrow> py_class option" where
  "find_method c m = find (\<lambda>k. has_method k m) (mro c)"

datatype criterion = ThresholdObj ThresholdEarlyStopping
  | PatienceObj PatienceEarlyStopping
  | SlopeObj SlopeThresholdEarlyStopping

fun class_of :: "criterion \<Rightarrow> py_class" where
  "class_of (ThresholdObj _) = C_ThresholdEarlyStopping"
| "class_of (PatienceObj _) = C_PatienceEarlyStopping"
| "class_of (SlopeObj _) = C_SlopeThresholdEarlyStopping"

text \<open>The body of \<^verbatim>\<open>reset\<close> in the class that the lookup found, run on the object.\<close>

fun reset_body :: "py_class \<Rightarrow> criterion \<Rightarrow> error + criterion" where
  "reset_body C_StatefulTriggerMixin obj = Inl NotImplementedError"
| "reset_body C_PatienceEarlyStopping (PatienceObj self) = Inr (PatienceObj (patience_reset self))"
| "reset_body C_SlopeThresholdEarlyStopping (SlopeObj self) = Inr (SlopeObj (slope_reset self))"
| "reset_body _ obj = Inl AttributeError"

text \<open>\<^verbatim>\<open>obj.reset()\<close>.\<close>

definition call_reset :: "criterion \<Rightarrow> error + criterion" where
  "call_reset obj =
     (case find_method (class_of obj) M_reset of
        None \<Rightarrow> Inl AttributeError
      | Some k \<Rightarrow> reset_body k obj)"

section \<open>Patience: concrete runs\<close>

text \<open>
  C1, as the specification words it: with patience 1, the values 5, 5, 5 fed to a fresh
  patience criterion would give False, True, True. The code gives something else: the
  second call raises the counter to 1, which does not exceed the patience of 1.
\<close>

theorem C1_patience_plateau_counterexample:
  "fst (patience_run (PatienceEarlyStopping_init 1) [Fin 5, Fin 5, Fin 5]) \<noteq> [False, True, True]"
  by (simp add: PatienceEarlyStopping_init_def patience_should_stop_def gt_def Let_def)

text \<open>
  C1, amended: with patience 1, the values 5, 5, 5 fed to a fresh patience criterion give
  False, False, True. The repeated 5 is not an improvement, so the best value stays 5 and
  the counter advances from the first repeat, to 1 and then to 2; only the third call
  finds the counter above the patience.
\<close>

theorem C1_patience_plateau:
  "patience_run (PatienceEarlyStopping_init 1) [Fin 5, Fin 5, Fin 5] =
     ([False, False, True], \<lparr>patience = 1, best_so_far = Fin 5, time_since_best = 2\<rparr>)
   \<and> fst (patience_run (PatienceEarlyStopping_init 1) [Fin 5, Fin 5]) = [False, False]"
  by (simp add: PatienceEarlyStopping_init_def patience_should_stop_def gt_def Let_def)

text \<open>
  C2. Every call of \<^verbatim>\<open>should_stop\<close> on the patience criterion: a value strictly greater
  than \<open>best_so_far\<close> becomes the new best, sets the counter to 0 and returns False; any
  solver value adds 1 to the counter and returns whether the new counter exceeds the
  patience. The values 1, 5, 3, 3, 3 with patience 2 give False, False, False, False, True.
\<close>

theorem C2_patience_step:
  "(gt v (best_so_far self) \<longrightarrow>
      patience_should_stop self v = (False, self\<lparr>best_so_far := v, time_since_best := 0\<rparr>))
   \<and> (\<not> gt v (best_so_far self) \<longrightarrow>
      patience_should_stop self v =
        (patience self < time_since_best self + 1,
         self\<lparr>time_since_best := time_since_best self + 1\<rparr>))
   \<and> fst (patience_run (PatienceEarlyStopping_init 2) [Fin 1, Fin 5, Fin 3, Fin 3, Fin 3]) =
        [False, False, False, False, True]"
  by (simp add: PatienceEarlyStopping_init_def patience_should_stop_def gt_def Let_def)

theorem C2_patience_step_witness:
  "gt (Fin 5) (best_so_far (PatienceEarlyStopping_init 2))
   \<and> patience_should_stop (PatienceEarlyStopping_init 2) (Fin 5) =
       (False, \<lparr>patience = 2, best_so_far = Fin 5, time_since_best = 0\<rparr>)
   \<and> \<not> gt (Fin 3) (best_so_far \<lparr>patience = 2, best_so_far = Fin 5, time_since_best = 2\<rparr>)
   \<and> patience_should_stop \<lparr>patience = 2, best_so_far = Fin 5, time_since_best = 2\<rparr> (Fin 3) =
       (True, \<lparr>patience = 2, best_so_far = Fin 5, time_since_best = 3\<rparr>)"
  using C2_patience_step [of "Fin 5" "PatienceEarlyStopping_init 2"]
    C2_patience_step [of "Fin 3" "\<lparr>patience = 2, best_so_far = Fin 5, time_since_best = 2\<rparr>"]
  by (simp add: PatienceEarlyStopping_init_def gt_def)

text \<open>
  C10. A first value of minus infinity, after construction or after a reset, is not
  strictly greater than the initial best of minus infinity: the best stays, the counter
  goes to 1, and the call returns whether 1 exceeds the patience. With patience 0 that
  first call returns True.
\<close>

theorem C10_patience_first_neg_inf:
  "patience_should_stop (PatienceEarlyStopping_init p) NegInf =
     (p < 1, \<lparr>patience = p, best_so_far = NegInf, time_since_best = 1\<rparr>)
   \<and> patience_should_stop (patience_reset self) NegInf =
     (patience self < 1, \<lparr>patience = patience self, best_so_far = NegInf, time_since_best = 1\<rparr>)
   \<and> fst (patience_should_stop (PatienceEarlyStopping_init 0) NegInf) = True"
  by (simp add: PatienceEarlyStopping_init_def patience_should_stop_def patience_reset_def
      gt_def Let_def)

section \<open>Threshold: the bound check\<close>

text \<open>
  C6. \<^verbatim>\<open>should_stop(v)\<close> on the threshold criterion returns whether \<open>v\<close> is above the
  maximum or below the minimum, for every float \<open>v\<close>, and leaves the object as it was; on
  finite bounds and a finite value that is the order of the reals. With the default
  bounds, minus and plus infinity, it returns False on every finite value.
\<close>

theorem C6_threshold:
  "threshold_should_stop self v = (gt v (max_threshold self) \<or> lt v (min_threshold self), self)
   \<and> fst (threshold_should_stop (ThresholdEarlyStopping_init (Fin lo) (Fin hi)) (Fin r)) =
        (r > hi \<or> r < lo)
   \<and> fst (threshold_should_stop ThresholdEarlyStopping_default (Fin r)) = False"
  by (simp add: threshold_should_stop_def ThresholdEarlyStopping_default_def
      ThresholdEarlyStopping_init_def gt_def)

section \<open>Reset and the classes\<close>

lemma call_reset_patience: "call_reset (PatienceObj self) = Inr (PatienceObj (patience_reset self))"
  by (simp add: call_reset_def find_method_def mro_def eval_nat_numeral)

lemma call_reset_slope: "call_reset (SlopeObj self) = Inr (SlopeObj (slope_reset self))"
  by (simp add: call_reset_def find_method_def mro_def eval_nat_numeral)

text \<open>
  C8. \<^verbatim>\<open>reset()\<close> on a threshold criterion raises: no class in the method resolution
  order of \<^verbatim>\<open>ThresholdEarlyStopping\<close> defines \<^verbatim>\<open>reset\<close> (the class does not inherit
  the mix-in), so the call signals AttributeError and never returns an object.
\<close>

theorem C8_threshold_reset_raises:
  "call_reset (ThresholdObj self) = Inl AttributeError
   \<and> (\<forall>obj. call_reset (ThresholdObj self) \<noteq> Inr obj)"
  by (simp add: call_reset_def find_method_def mro_def eval_nat_numeral)

section \<open>Slope: the window and the counter\<close>

lemma init_Inr:
  "SlopeThresholdEarlyStopping_init lo hi t = Inr self \<longleftrightarrow>
     0 \<le> t \<and> self = \<lparr>min_thresh = lo, max_thresh = hi, points_seen = 0, time = t,
        self_x = map real [0..<nat t], self_y = replicate (nat t) (Fin 0),
        self_A = map (\<lambda>xi. (xi, 1)) (map real [0..<nat t])\<rparr>"
  by (auto simp: SlopeThresholdEarlyStopping_init_def Let_def)

lemma shift_store:
  assumes "ys \<noteq> []"
  shows "(drop 1 ys @ drop (length ys - 1) ys)
           [length (drop 1 ys @ drop (length ys - 1) ys) - 1 := v] = drop 1 ys @ [v]"
proof -
  from assms have n: "0 < length ys" by simp
  then obtain z where z: "drop (length ys - 1) ys = [z]"
    by (metis append_butlast_last_id append_eq_conv_conj assms length_butlast)
  have "length (drop 1 ys @ [z]) - 1 = length (drop 1 ys)" by simp
  then show ?thesis unfolding z by (simp only: list_update_length)
qed

lemma last_n_snoc:
  assumes "n \<le> length zs" "0 < n"
  shows "drop 1 (last_n n zs) @ [v] = last_n n (zs @ [v])"
  using assms by (simp add: last_n_def Suc_diff_le)

lemma should_stop_cases:
  assumes "self_y self \<noteq> []"
  shows "slope_should_stop solver self v =
     (let self1 = self\<lparr>self_y := drop 1 (self_y self) @ [v]\<rparr>
      in if points_seen self < time self - 1
         then Inr (False, self1\<lparr>points_seen := points_seen self + 1\<rparr>)
         else (case solver (self_A self) (drop 1 (self_y self) @ [v]) of
                 Inl e \<Rightarrow> Inl (e, self1)
               | Inr (m, c) \<Rightarrow> Inr (lt m (min_thresh self) \<or> gt m (max_thresh self), self1)))"
proof -
  have "drop 1 (self_y self) @ drop (length (self_y self) - 1) (self_y self) \<noteq> []"
    using assms by simp
  then show ?thesis
    unfolding slope_should_stop_def Let_def
    by (simp only: shift_store [OF assms] if_False) (simp split: sum.splits)
qed

lemma should_stop_empty:
  "self_y self = [] \<Longrightarrow> slope_should_stop solver self v = Inl (IndexError, self)"
  by (simp add: slope_should_stop_def)

lemma length_last_n_padded [simp]: "length (last_n n (replicate n z @ ws)) = n"
  by (simp add: last_n_def)

lemma should_stop_state:
  assumes "self_y self \<noteq> []"
    and "slope_should_stop solver self v = Inr (b, self') \<or> slope_should_stop solver self v = Inl (e, self')"
  shows "self' = self\<lparr>self_y := drop 1 (self_y self) @ [v],
            points_seen := (if points_seen self < time self - 1 then points_seen self + 1
                            else points_seen self)\<rparr>"
  using assms(2) unfolding should_stop_cases [OF assms(1)] Let_def
  by (auto split: if_splits sum.splits prod.splits)

lemma supplied_step_inv:
  assumes IH: "0 \<le> t \<and> min_thresh self = lo \<and> max_thresh self = hi \<and> time self = t
     \<and> self_x self = map real [0..<nat t]
     \<and> self_A self = map (\<lambda>xi. (xi, 1)) (map real [0..<nat t])
     \<and> length (self_y self) = nat t
     \<and> points_seen self = (if t = 0 then 0 else min (int (length vs)) (t - 1))
     \<and> self_y self = last_n (nat t) (replicate (nat t) (Fin 0) @ vs)"
    and step: "slope_should_stop solver self v = Inr (b, self') \<or> slope_should_stop solver self v = Inl (e, self')"
  shows "0 \<le> t \<and> min_thresh self' = lo \<and> max_thresh self' = hi \<and> time self' = t
     \<and> self_x self' = map real [0..<nat t]
     \<and> self_A self' = map (\<lambda>xi. (xi, 1)) (map real [0..<nat t])
     \<and> length (self_y self') = nat t
     \<and> points_seen self' = (if t = 0 then 0 else min (int (length (vs @ [v]))) (t - 1))
     \<and> self_y self' = last_n (nat t) (replicate (nat t) (Fin 0) @ (vs @ [v]))"
proof (cases "t = 0")
  case True
  with IH have "self_y self = []" by simp
  with step have "self' = self" by (simp add: should_stop_empty)
  with IH True show ?thesis by (simp add: last_n_def)
next
  case False
  with IH have ne: "self_y self \<noteq> []" and pos: "0 < nat t" by auto
  have win: "drop 1 (self_y self) @ [v] = last_n (nat t) (replicate (nat t) (Fin 0) @ vs @ [v])"
    using IH last_n_snoc [of "nat t" "replicate (nat t) (Fin 0) @ vs" v] pos
    by simp
  note st = should_stop_state [OF ne step]
  have y: "self_y self' = last_n (nat t) (replicate (nat t) (Fin 0) @ vs @ [v])"
    unfolding st using win by simp
  have ps: "points_seen self' = min (int (length (vs @ [v]))) (t - 1)"
    unfolding st using IH False by simp
  have fr: "min_thresh self' = lo" "max_thresh self' = hi" "time self' = t"
    "self_x self' = map real [0..<nat t]"
    "self_A self' = map (\<lambda>xi. (xi, 1)) (map real [0..<nat t])"
    unfolding st using IH by simp_all
  from y ps fr IH False show ?thesis by simp
qed

lemma supplied_inv:
  assumes "supplied solver lo hi t vs self"
  shows "0 \<le> t \<and> min_thresh self = lo \<and> max_thresh self = hi \<and> time self = t
     \<and> self_x self = map real [0..<nat t]
     \<and> self_A self = map (\<lambda>xi. (xi, 1)) (map real [0..<nat t])
     \<and> length (self_y self) = nat t
     \<and> points_seen self = (if t = 0 then 0 else min (int (length vs)) (t - 1))
     \<and> self_y self = last_n (nat t) (replicate (nat t) (Fin 0) @ vs)"
  using assms
proof (induction rule: supplied.induct)
  case (constructed self)
  then show ?case by (simp add: init_Inr last_n_def)
next
  case (after_reset vs self)
  then have "length (self_y self) = nat t" by simp
  moreover have "last_n (nat t) (replicate (nat t) (Fin 0) @ []) = replicate (nat t) (Fin 0)"
    by (simp add: last_n_def)
  ultimately show ?case using after_reset.IH by (simp add: slope_reset_def)
next
  case (after_call vs self v b self')
  from after_call.hyps(2)
  have "slope_should_stop solver self v = Inr (b, self')
      \<or> slope_should_stop solver self v = Inl (undefined, self')" by simp
  from supplied_step_inv [OF after_call.IH this] show ?case .
next
  case (after_raise vs self v e self')
  from after_raise.hyps(2)
  have "slope_should_stop solver self v = Inr (undefined, self')
      \<or> slope_should_stop solver self v = Inl (e, self')" by simp
  from supplied_step_inv [OF after_raise.IH this] show ?case .
qed

section \<open>Least squares\<close>

text \<open>
  The squared error of a line is a quadratic in its two coefficients; the solution of the
  normal equations is its minimum, and the only one when the determinant is positive.
\<close>

lemma dot_simps [simp]:
  "dot [] w = 0" "dot u [] = 0" "dot (p # u) (q # w) = p * q + dot u w"
  by (simp_all add: dot_def)










subsection \<open>The design matrix of the window\<close>







section \<open>Slope: the calls\<close>





lemma example_supplied:
  "supplied solver lo hi 3 [] 
     \<lparr>min_thresh = lo, max_thresh = hi, points_seen = 0, time = 3, self_x = [0, 1, 2],
      self_y = [Fin 0, Fin 0, Fin 0], self_A = [(0, 1), (1, 1), (2, 1)]\<rparr>"
  "supplied solver lo hi 3 [v1]
     \<lparr>min_thresh = lo, max_thresh = hi, points_seen = 1, time = 3, self_x = [0, 1, 2],
      self_y = [Fin 0, Fin 0, v1], self_A = [(0, 1), (1, 1), (2, 1)]\<rparr>"
  "supplied solver lo hi 3 [v1, v2]
     \<lparr>min_thresh = lo, max_thresh = hi, points_seen = 2, time = 3, self_x = [0, 1, 2],
      self_y = [Fin 0, v1, v2], self_A = [(0, 1), (1, 1), (2, 1)]\<rparr>"
proof -
  let ?s0 = "\<lparr>min_thresh = lo, max_thresh = hi, points_seen = 0, time = 3, self_x = [0, 1, 2],
      self_y = [Fin 0, Fin 0, Fin 0], self_A = [(0, 1), (1, 1), (2, 1)]\<rparr>"
  let ?s1 = "\<lparr>min_thresh = lo, max_thresh = hi, points_seen = 1, time = 3, self_x = [0, 1, 2],
      self_y = [Fin 0, Fin 0, v1], self_A = [(0, 1), (1, 1), (2, 1)]\<rparr>"
  let ?s2 = "\<lparr>min_thresh = lo, max_thresh = hi, points_seen = 2, time = 3, self_x = [0, 1, 2],
      self_y = [Fin 0, v1, v2], self_A = [(0, 1), (1, 1), (2, 1)]\<rparr>"
  have "SlopeThresholdEarlyStopping_init lo hi 3 = Inr ?s0"
    by (simp add: SlopeThresholdEarlyStopping_init_def eval_nat_numeral)
  then show c0: "supplied solver lo hi 3 [] ?s0" by (rule supplied.constructed)
  have "slope_should_stop solver ?s0 v1 = Inr (False, ?s1)"
    by (simp add: slope_should_stop_def)
  from supplied.after_call [OF c0 this] show c1: "supplied solver lo hi 3 [v1] ?s1" by simp
  have "slope_should_stop solver ?s1 v2 = Inr (False, ?s2)"
    by (simp add: slope_should_stop_def)
  from supplied.after_call [OF c1 this] show "supplied solver lo hi 3 [v1, v2] ?s2" by simp
qed

text \<open>
  C4. A call of \<^verbatim>\<open>should_stop\<close> on the slope criterion made while fewer than \<open>t\<close>
  values have been supplied since construction or the last reset, the value of the call
  counted, returns False, for any value (infinities and NaN included) and any bounds: it
  stores the value in the window and counts it. With a window of 3 the first two calls
  after construction return False.
\<close>

theorem C4_slope_warm_up:
  "(supplied solver lo hi t vs self \<and> int (length (vs @ [v])) < t \<longrightarrow>
      slope_should_stop solver self v =
        Inr (False, self\<lparr>self_y := last_n (nat t) (replicate (nat t) (Fin 0) @ vs @ [v]),
                         points_seen := int (length (vs @ [v]))\<rparr>))
   \<and> (\<exists>s0 s2. SlopeThresholdEarlyStopping_init lo hi 3 = Inr s0
        \<and> slope_run solver s0 [v1, v2] = ([False, False], None, s2))"
proof (intro conjI impI)
  assume a: "supplied solver lo hi t vs self \<and> int (length (vs @ [v])) < t"
  then have sup: "supplied solver lo hi t vs self" and few: "int (length vs) + 1 < t" by simp_all
  note inv = supplied_inv [OF sup]
  from inv few have ne: "self_y self \<noteq> []" by auto
  from few have pos: "0 < nat t" by simp
  have win: "drop 1 (self_y self) @ [v] = last_n (nat t) (replicate (nat t) (Fin 0) @ vs @ [v])"
    using inv last_n_snoc [of "nat t" "replicate (nat t) (Fin 0) @ vs" v] pos by simp
  from inv few have ps: "points_seen self < time self - 1" "points_seen self = int (length vs)"
    by simp_all
  show "slope_should_stop solver self v =
        Inr (False, self\<lparr>self_y := last_n (nat t) (replicate (nat t) (Fin 0) @ vs @ [v]),
                         points_seen := int (length (vs @ [v]))\<rparr>)"
    unfolding should_stop_cases [OF ne] Let_def win using ps by simp
next
  show "\<exists>s0 s2. SlopeThresholdEarlyStopping_init lo hi 3 = Inr s0
        \<and> slope_run solver s0 [v1, v2] = ([False, False], None, s2)"
    by (simp add: SlopeThresholdEarlyStopping_init_def slope_should_stop_def Let_def
        eval_nat_numeral)
qed

theorem C4_slope_warm_up_witness:
  "supplied (\<lambda>A b. Inl LinAlgError) NegInf PosInf 3 [NaN]
     \<lparr>min_thresh = NegInf, max_thresh = PosInf, points_seen = 1, time = 3, self_x = [0, 1, 2],
      self_y = [Fin 0, Fin 0, NaN], self_A = [(0, 1), (1, 1), (2, 1)]\<rparr>
   \<and> int (length ([NaN] @ [PosInf])) < 3
   \<and> slope_should_stop (\<lambda>A b. Inl LinAlgError)
        \<lparr>min_thresh = NegInf, max_thresh = PosInf, points_seen = 1, time = 3, self_x = [0, 1, 2],
         self_y = [Fin 0, Fin 0, NaN], self_A = [(0, 1), (1, 1), (2, 1)]\<rparr> PosInf =
      Inr (False,
        \<lparr>min_thresh = NegInf, max_thresh = PosInf, points_seen = 2, time = 3, self_x = [0, 1, 2],
         self_y = [Fin 0, NaN, PosInf], self_A = [(0, 1), (1, 1), (2, 1)]\<rparr>)"
  using C4_slope_warm_up [of "\<lambda>A b. Inl LinAlgError" NegInf PosInf 3 "[NaN]"
      "\<lparr>min_thresh = NegInf, max_thresh = PosInf, points_seen = 1, time = 3, self_x = [0, 1, 2],
        self_y = [Fin 0, Fin 0, NaN], self_A = [(0, 1), (1, 1), (2, 1)]\<rparr>" PosInf]
    example_supplied(2) [of "\<lambda>A b. Inl LinAlgError" NegInf PosInf NaN]
  by (simp add: last_n_def eval_nat_numeral)

lemma example_fit:
  "exact_fit [(0, 1), (1, 1), (2, 1)] [1, 2, 3] = (1, 1)"
  "rounded_solver [(0, 1), (1, 1), (2, 1)] [Fin 1, Fin 2, Fin 3] = Inr (Fin (1 + 1 / 2 ^ 52), Fin 1)"
proof -
  show fit: "exact_fit [(0, 1), (1, 1), (2, 1)] [1, 2, 3] = (1, 1)"
    by (simp add: exact_fit_def Let_def)
  show "rounded_solver [(0, 1), (1, 1), (2, 1)] [Fin 1, Fin 2, Fin 3] =
      Inr (Fin (1 + 1 / 2 ^ 52), Fin 1)"
    by (simp add: rounded_solver_def fit)
qed










section \<open>Reset\<close>

lemma patience_reachable_patience: "patience_reachable p self \<Longrightarrow> patience self = p"
  by (induction rule: patience_reachable.induct)
     (simp_all add: PatienceEarlyStopping_init_def patience_reset_def patience_should_stop_def Let_def)

lemma patience_reset_init: "patience_reset self = PatienceEarlyStopping_init (patience self)"
  by (simp add: patience_reset_def PatienceEarlyStopping_init_def)

lemma slope_reset_init:
  assumes "supplied solver lo hi t ws self"
  shows "SlopeThresholdEarlyStopping_init lo hi t = Inr (slope_reset self)"
proof -
  note inv = supplied_inv [OF assms]
  have "slope_reset self = \<lparr>min_thresh = lo, max_thresh = hi, points_seen = 0, time = t,
        self_x = map real [0..<nat t], self_y = replicate (nat t) (Fin 0),
        self_A = map (\<lambda>xi. (xi, 1)) (map real [0..<nat t])\<rparr>"
    using inv by (simp add: slope_reset_def)
  with inv show ?thesis by (simp add: init_Inr)
qed

lemma example_patience_reachable:
  "patience_reachable 2 \<lparr>patience = 2, best_so_far = Fin 5, time_since_best = 1\<rparr>"
proof -
  have calls: "patience_reachable 2
      (snd (patience_should_stop (snd (patience_should_stop (PatienceEarlyStopping_init 2) (Fin 5)))
         (Fin 3)))"
    by (rule patience_reachable.intros)+
  have state: "snd (patience_should_stop (snd (patience_should_stop (PatienceEarlyStopping_init 2)
         (Fin 5))) (Fin 3)) = \<lparr>patience = 2, best_so_far = Fin 5, time_since_best = 1\<rparr>"
    by (simp add: PatienceEarlyStopping_init_def patience_should_stop_def gt_def Let_def)
  show ?thesis
    by (rule subst [OF state, of "patience_reachable 2"]) (rule calls)
qed

text \<open>
  C7. A reset followed by a sequence of values gives the results that a freshly constructed
  object with the same parameters gives on that sequence: for the patience criterion in
  any state reachable by calls and resets, and for the slope criterion in any state
  reachable by calls (returning or raising) and resets. The whole run agrees: the results,
  the exception if the run ends in one, and the final object.
\<close>

theorem C7_reset_replay:
  "(patience_reachable p ps \<longrightarrow>
      patience_run (patience_reset ps) vs = patience_run (PatienceEarlyStopping_init p) vs)
   \<and> (supplied solver lo hi t ws ss \<longrightarrow>
      (\<exists>s0. SlopeThresholdEarlyStopping_init lo hi t = Inr s0
         \<and> slope_run solver (slope_reset ss) vs = slope_run solver s0 vs))"
proof (intro conjI impI)
  assume "patience_reachable p ps"
  then have "patience ps = p" by (rule patience_reachable_patience)
  then show "patience_run (patience_reset ps) vs = patience_run (PatienceEarlyStopping_init p) vs"
    by (simp add: patience_reset_init)
next
  assume "supplied solver lo hi t ws ss"
  then have "SlopeThresholdEarlyStopping_init lo hi t = Inr (slope_reset ss)"
    by (rule slope_reset_init)
  then show "\<exists>s0. SlopeThresholdEarlyStopping_init lo hi t = Inr s0
         \<and> slope_run solver (slope_reset ss) vs = slope_run solver s0 vs"
    by simp
qed

theorem C7_reset_replay_witness:
  "patience_reachable 2 \<lparr>patience = 2, best_so_far = Fin 5, time_since_best = 1\<rparr>
   \<and> patience_run (patience_reset \<lparr>patience = 2, best_so_far = Fin 5, time_since_best = 1\<rparr>)
        [Fin 1, Fin 5, Fin 3, Fin 3, Fin 3] =
      patience_run (PatienceEarlyStopping_init 2) [Fin 1, Fin 5, Fin 3, Fin 3, Fin 3]
   \<and> supplied (\<lambda>A b. Inl LinAlgError) NegInf (Fin (1 / 2)) 3 [Fin 1, Fin 2]
       \<lparr>min_thresh = NegInf, max_thresh = Fin (1 / 2), points_seen = 2, time = 3,
        self_x = [0, 1, 2], self_y = [Fin 0, Fin 1, Fin 2], self_A = [(0, 1), (1, 1), (2, 1)]\<rparr>
   \<and> (\<exists>s0. SlopeThresholdEarlyStopping_init NegInf (Fin (1 / 2)) 3 = Inr s0
       \<and> slope_run (\<lambda>A b. Inl LinAlgError)
           (slope_reset \<lparr>min_thresh = NegInf, max_thresh = Fin (1 / 2), points_seen = 2, time = 3,
              self_x = [0, 1, 2], self_y = [Fin 0, Fin 1, Fin 2],
              self_A = [(0, 1), (1, 1), (2, 1)]\<rparr>) [Fin 1, Fin 2, Fin 3] =
         slope_run (\<lambda>A b. Inl LinAlgError) s0 [Fin 1, Fin 2, Fin 3])"
proof -
  let ?p = "\<lparr>patience = 2, best_so_far = Fin 5, time_since_best = 1\<rparr>"
  let ?s = "\<lparr>min_thresh = NegInf, max_thresh = Fin (1 / 2), points_seen = 2, time = 3,
        self_x = [0, 1, 2], self_y = [Fin 0, Fin 1, Fin 2], self_A = [(0, 1), (1, 1), (2, 1)]\<rparr>"
  have reach: "patience_reachable 2 ?p" by (rule example_patience_reachable)
  have sup: "supplied (\<lambda>A b. Inl LinAlgError) NegInf (Fin (1 / 2)) 3 [Fin 1, Fin 2] ?s"
    by (rule example_supplied(3))
  from C7_reset_replay [where p = 2 and ps = ?p and vs = "[Fin 1, Fin 5, Fin 3, Fin 3, Fin 3]"] reach
  have replay_p: "patience_run (patience_reset ?p) [Fin 1, Fin 5, Fin 3, Fin 3, Fin 3] =
      patience_run (PatienceEarlyStopping_init 2) [Fin 1, Fin 5, Fin 3, Fin 3, Fin 3]"
    by blast
  from C7_reset_replay [where solver = "\<lambda>A b. Inl LinAlgError" and lo = NegInf
      and hi = "Fin (1 / 2)" and t = 3 and ws = "[Fin 1, Fin 2]" and ss = ?s
      and vs = "[Fin 1, Fin 2, Fin 3]"] sup
  have replay_s: "\<exists>s0. SlopeThresholdEarlyStopping_init NegInf (Fin (1 / 2)) 3 = Inr s0
       \<and> slope_run (\<lambda>A b. Inl LinAlgError) (slope_reset ?s) [Fin 1, Fin 2, Fin 3] =
         slope_run (\<lambda>A b. Inl LinAlgError) s0 [Fin 1, Fin 2, Fin 3]"
    by blast
  from reach replay_p sup replay_s show ?thesis by blast
qed

section \<open>What a call leaves unchanged\<close>

text \<open>
  C9. No call of \<^verbatim>\<open>should_stop\<close> changes a parameter fixed at construction: the
  threshold object is returned as it was; the patience object keeps its patience; the
  slope object keeps its bounds, its window size, its time indices and its design matrix,
  whether the call returns or raises. (The patience record has no further field than the
  best value and the counter, and the slope record none but the window and the count.)
\<close>

theorem C9_should_stop_frame:
  "snd (threshold_should_stop ts v) = ts
   \<and> patience (snd (patience_should_stop ps v)) = patience ps
   \<and> (slope_should_stop solver ss v = Inr (b, ss') \<or> slope_should_stop solver ss v = Inl (e, ss')
        \<longrightarrow> min_thresh ss' = min_thresh ss \<and> max_thresh ss' = max_thresh ss
          \<and> time ss' = time ss \<and> self_x ss' = self_x ss \<and> self_A ss' = self_A ss)"
proof -
  have thr: "snd (threshold_should_stop ts v) = ts" by (simp add: threshold_should_stop_def)
  have pat: "patience (snd (patience_should_stop ps v)) = patience ps"
    by (simp add: patience_should_stop_def Let_def)
  have slp: "min_thresh ss' = min_thresh ss \<and> max_thresh ss' = max_thresh ss
          \<and> time ss' = time ss \<and> self_x ss' = self_x ss \<and> self_A ss' = self_A ss"
    if step: "slope_should_stop solver ss v = Inr (b, ss') \<or> slope_should_stop solver ss v = Inl (e, ss')"
  proof (cases "self_y ss = []")
    case True
    with step have "ss' = ss" by (simp add: should_stop_empty)
    then show ?thesis by simp
  next
    case False
    have "ss' = ss\<lparr>self_y := drop 1 (self_y ss) @ [v],
            points_seen := (if points_seen ss < time ss - 1 then points_seen ss + 1
                            else points_seen ss)\<rparr>"
      by (rule should_stop_state [OF False step])
    then show ?thesis by simp
  qed
  from thr pat slp show ?thesis by blast
qed

theorem C9_should_stop_frame_witness:
  "slope_should_stop rounded_solver
      \<lparr>min_thresh = NegInf, max_thresh = Fin (1 / 2), points_seen = 2, time = 3,
       self_x = [0, 1, 2], self_y = [Fin 0, Fin 1, Fin 2], self_A = [(0, 1), (1, 1), (2, 1)]\<rparr>
      (Fin 3) =
    Inr (True,
      \<lparr>min_thresh = NegInf, max_thresh = Fin (1 / 2), points_seen = 2, time = 3,
       self_x = [0, 1, 2], self_y = [Fin 1, Fin 2, Fin 3], self_A = [(0, 1), (1, 1), (2, 1)]\<rparr>)
   \<and> slope_should_stop (\<lambda>A b. Inl LinAlgError)
      \<lparr>min_thresh = NegInf, max_thresh = Fin (1 / 2), points_seen = 2, time = 3,
       self_x = [0, 1, 2], self_y = [Fin 0, Fin 1, Fin 2], self_A = [(0, 1), (1, 1), (2, 1)]\<rparr>
      PosInf =
    Inl (LinAlgError,
      \<lparr>min_thresh = NegInf, max_thresh = Fin (1 / 2), points_seen = 2, time = 3,
       self_x = [0, 1, 2], self_y = [Fin 1, Fin 2, PosInf], self_A = [(0, 1), (1, 1), (2, 1)]\<rparr>)
   \<and> (\<exists>b e ss'.
        (slope_should_stop rounded_solver
           \<lparr>min_thresh = NegInf, max_thresh = Fin (1 / 2), points_seen = 2, time = 3,
            self_x = [0, 1, 2], self_y = [Fin 0, Fin 1, Fin 2],
            self_A = [(0, 1), (1, 1), (2, 1)]\<rparr> (Fin 3) = Inr (b, ss')
         \<or> slope_should_stop rounded_solver
           \<lparr>min_thresh = NegInf, max_thresh = Fin (1 / 2), points_seen = 2, time = 3,
            self_x = [0, 1, 2], self_y = [Fin 0, Fin 1, Fin 2],
            self_A = [(0, 1), (1, 1), (2, 1)]\<rparr> (Fin 3) = Inl (e, ss'))
        \<and> min_thresh ss' = NegInf \<and> max_thresh ss' = Fin (1 / 2) \<and> time ss' = 3
        \<and> self_x ss' = [0, 1, 2] \<and> self_A ss' = [(0, 1), (1, 1), (2, 1)]
        \<and> self_y ss' = [Fin 1, Fin 2, Fin 3])"
proof -
  let ?s = "\<lparr>min_thresh = NegInf, max_thresh = Fin (1 / 2), points_seen = 2, time = 3,
       self_x = [0, 1, 2], self_y = [Fin 0, Fin 1, Fin 2], self_A = [(0, 1), (1, 1), (2, 1)]\<rparr>"
  let ?s' = "\<lparr>min_thresh = NegInf, max_thresh = Fin (1 / 2), points_seen = 2, time = 3,
       self_x = [0, 1, 2], self_y = [Fin 1, Fin 2, Fin 3], self_A = [(0, 1), (1, 1), (2, 1)]\<rparr>"
  have ret: "slope_should_stop rounded_solver ?s (Fin 3) = Inr (True, ?s')"
    by (simp add: slope_should_stop_def example_fit(2) gt_def)
  have raise: "slope_should_stop (\<lambda>A b. Inl LinAlgError) ?s PosInf =
      Inl (LinAlgError, ?s\<lparr>self_y := [Fin 1, Fin 2, PosInf]\<rparr>)"
    by (simp add: slope_should_stop_def)
  from C9_should_stop_frame [where solver = rounded_solver and ss = ?s and v = "Fin 3"
      and b = True and ss' = ?s'] ret
  have kept: "min_thresh ?s' = min_thresh ?s \<and> max_thresh ?s' = max_thresh ?s
      \<and> time ?s' = time ?s \<and> self_x ?s' = self_x ?s \<and> self_A ?s' = self_A ?s"
    by blast
  have "(slope_should_stop rounded_solver ?s (Fin 3) = Inr (True, ?s')
         \<or> slope_should_stop rounded_solver ?s (Fin 3) = Inl (undefined, ?s'))
        \<and> min_thresh ?s' = NegInf \<and> max_thresh ?s' = Fin (1 / 2) \<and> time ?s' = 3
        \<and> self_x ?s' = [0, 1, 2] \<and> self_A ?s' = [(0, 1), (1, 1), (2, 1)]
        \<and> self_y ?s' = [Fin 1, Fin 2, Fin 3]"
    using ret kept by simp
  then have ex: "\<exists>b e ss'.
        (slope_should_stop rounded_solver ?s (Fin 3) = Inr (b, ss')
         \<or> slope_should_stop rounded_solver ?s (Fin 3) = Inl (e, ss'))
        \<and> min_thresh ss' = NegInf \<and> max_thresh ss' = Fin (1 / 2) \<and> time ss' = 3
        \<and> self_x ss' = [0, 1, 2] \<and> self_A ss' = [(0, 1), (1, 1), (2, 1)]
        \<and> self_y ss' = [Fin 1, Fin 2, Fin 3]"
    by blast
  from ret raise ex show ?thesis by simp
qed

end
